theory Spec2Isabelle
  imports Complex_Main "HOL-Library.Char_ord" "HOL-Library.List_Lexorder"
    "HOL-Library.Product_Lexorder"
begin

section \<open>Text primitives of the host language\<close>


definition isdigit :: "char \<Rightarrow> bool" where
  "isdigit c = (let n = (of_char c :: nat) in 48 \<le> n \<and> n \<le> 57)"

definition isword :: "char \<Rightarrow> bool" where
  "isword c = (let n = (of_char c :: nat) in
     (48 \<le> n \<and> n \<le> 57) \<or> (65 \<le> n \<and> n \<le> 90) \<or> n = 95 \<or> (97 \<le> n \<and> n \<le> 122)
     \<or> n = 170 \<or> n = 178 \<or> n = 179 \<or> n = 181 \<or> n = 185 \<or> n = 186
     \<or> (188 \<le> n \<and> n \<le> 190) \<or> (192 \<le> n \<and> n \<le> 214) \<or> (216 \<le> n \<and> n \<le> 246)
     \<or> (248 \<le> n \<and> n \<le> 255))"

definition lower_char :: "char \<Rightarrow> char" where
  "lower_char c = (let n = (of_char c :: nat) in
     if (65 \<le> n \<and> n \<le> 90) \<or> (192 \<le> n \<and> n \<le> 214) \<or> (216 \<le> n \<and> n \<le> 222)
     then char_of (n + 32) else c)"

text \<open>\<open>s.lower()\<close>\<close>

definition lower :: "string \<Rightarrow> string" where
  "lower s = map lower_char s"


text \<open>\<open>k in s\<close> on strings: \<open>k\<close> occurs in \<open>s\<close> as a contiguous block.\<close>

fun starts_with :: "string \<Rightarrow> string \<Rightarrow> bool" where
  "starts_with [] s = True"
| "starts_with (k # ks) [] = False"
| "starts_with (k # ks) (c # cs) = (k = c \<and> starts_with ks cs)"

fun contains :: "string \<Rightarrow> string \<Rightarrow> bool" where
  "contains k [] = (k = [])"
| "contains k (c # cs) = (starts_with k (c # cs) \<or> contains k cs)"

section \<open>The close-match utility of the standard library\<close>

text \<open>
  \<open>normalize_food_name\<close> calls \<open>difflib.get_close_matches(n, candidates, n=1, cutoff=0.7)\<close>
  of the Python standard library. The library is not part of the program; it is modelled
  here after its implementation (\<open>SequenceMatcher\<close> with its default arguments
  \<open>isjunk=None\<close> and \<open>autojunk=True\<close>), with \<open>a\<close> the candidate and \<open>b\<close> the word
  looked for. A similarity ratio is the fraction \<open>2 * M / T\<close>; the library computes it in
  double precision, which orders such fractions and compares them with \<open>0.7\<close> exactly as
  the rationals do for all texts shorter than ten million characters, so the model uses
  \<open>rat\<close>. Positions and lengths are naturals: the subtractions \<open>i - k + 1\<close> and
  \<open>j - k + 1\<close> of the library are written \<open>i + 1 - k\<close> and \<open>j + 1 - k\<close>, and the
  invariant \<open>flm_inv\<close> below shows \<open>k \<le> i + 1\<close> and \<open>k \<le> j + 1\<close> there.
\<close>


























section \<open>Tables\<close>



definition WORD_NUM :: "(string \<times> int) list" where
  "WORD_NUM =
    [(''one'', 1),
     (''two'', 2),
     (''three'', 3),
     (''four'', 4),
     (''five'', 5),
     (''six'', 6),
     (''seven'', 7),
     (''eight'', 8),
     (''nine'', 9),
     (''ten'', 10),
     (''a'', 1),
     (''an'', 1)]"

section \<open>Parsing and estimation helpers\<close>

text \<open>
  The operations of the program that can raise: \<open>int(...)\<close> raises \<open>ValueError\<close> and
  \<open>FOOD_DB[name]\<close> raises \<open>KeyError\<close>. A result is \<open>Inr\<close> of the value or \<open>Inl\<close> of
  the exception.
\<close>

datatype py_error = ValueError | KeyError






text \<open>
  \<open>re.search(r"(\d+)", text)\<close>: the leftmost digit and the digits that follow it.
\<close>

definition first_digit_run :: "string \<Rightarrow> string option" where
  "first_digit_run text =
     (case dropWhile (\<lambda>c. \<not> isdigit c) text of [] \<Rightarrow> None | d # rest \<Rightarrow> Some (takeWhile isdigit (d # rest)))"

text \<open>
  \<open>int(s)\<close> for a non-empty string of decimal digits, the only kind of text the group
  \<open>(\d+)\<close> yields; Python integers are unbounded. (Any other argument is reported as
  \<open>ValueError\<close> here; the program never passes one.)
\<close>

definition py_int :: "string \<Rightarrow> py_error + int" where
  "py_int s =
     (if s \<noteq> [] \<and> list_all isdigit s
      then Inr (foldl (\<lambda>acc c. 10 * acc + (of_char c - 48)) 0 s)
      else Inl ValueError)"

text \<open>
  \<open>re.search(rf"\b{w}\b", text)\<close> for a literal \<open>w\<close>: some occurrence of \<open>w\<close> in
  \<open>text\<close> has a word boundary on both sides. A position is a word boundary when exactly
  one of the characters before and after it is a word character, the outside of the text
  counting as a non-word character. No flag is passed, so the match is case-sensitive.
\<close>

definition is_word_char :: "char option \<Rightarrow> bool" where
  "is_word_char c = (case c of None \<Rightarrow> False | Some x \<Rightarrow> isword x)"

definition word_boundary :: "char option \<Rightarrow> char option \<Rightarrow> bool" where
  "word_boundary l r = (is_word_char l \<noteq> is_word_char r)"

definition head_opt :: "string \<Rightarrow> char option" where
  "head_opt s = (case s of [] \<Rightarrow> None | c # cs \<Rightarrow> Some c)"

definition whole_word_here :: "char option \<Rightarrow> string \<Rightarrow> string \<Rightarrow> bool" where
  "whole_word_here prev w text =
     (word_boundary prev (head_opt text) \<and> starts_with w text
      \<and> word_boundary (if w = [] then prev else Some (last w)) (head_opt (drop (length w) text)))"

fun search_whole_word_from :: "char option \<Rightarrow> string \<Rightarrow> string \<Rightarrow> bool" where
  "search_whole_word_from prev w [] = whole_word_here prev w []"
| "search_whole_word_from prev w (c # cs) =
     (whole_word_here prev w (c # cs) \<or> search_whole_word_from (Some c) w cs)"

definition search_whole_word :: "string \<Rightarrow> string \<Rightarrow> bool" where
  "search_whole_word w text = search_whole_word_from None w text"

text \<open>
  The loop \<open>for w, v in WORD_NUM.items(): if re.search(...): return v\<close>.
\<close>

fun first_word_num :: "(string \<times> int) list \<Rightarrow> string \<Rightarrow> int option" where
  "first_word_num [] text = None"
| "first_word_num ((w, v) # rest) text =
     (if search_whole_word w text then Some v else first_word_num rest text)"

text \<open>
  \<open>extract_quantity\<close>. The last test, for a unit word, returns 1 on both of its
  branches, as in the program.
\<close>

definition extract_quantity :: "string \<Rightarrow> py_error + int" where
  "extract_quantity text =
     (case first_digit_run text of
        Some g \<Rightarrow> (case py_int g of Inl e \<Rightarrow> Inl e | Inr v \<Rightarrow> Inr (max 1 v))
      | None \<Rightarrow>
          (case first_word_num WORD_NUM text of
             Some v \<Rightarrow> Inr v
           | None \<Rightarrow>
               if list_ex (\<lambda>u. search_whole_word u text)
                    [''cup'', ''bowl'', ''plate'', ''slice'', ''piece'', ''pcs'', ''glass'']
               then Inr 1
               else Inr 1))"

text \<open>
  \<open>any(w in text for w in ws)\<close>.
\<close>

definition any_in :: "string list \<Rightarrow> string \<Rightarrow> bool" where
  "any_in ws text = list_ex (\<lambda>w. contains w text) ws"

text \<open>
  The fallback heuristics of \<open>estimate_calories_free_text\<close> up to, and without, the
  clamp \<open>base = max(50, base)\<close>.
\<close>

definition fallback_base :: "string \<Rightarrow> int" where
  "fallback_base item_text =
     (let base = 150;
          text = lower item_text;
          base = (if any_in [''fried'', ''deep fry'', ''pakora'', ''bhaji''] text
                  then base + 200 else base);
          base = (if any_in [''butter'', ''cream'', ''cheese'', ''paneer'', ''ghee''] text
                  then base + 150 else base);
          base = (if any_in [''sweet'', ''dessert'', ''sugar'', ''syrup'', ''jamun'', ''jalebi'',
                             ''halwa'', ''kheer''] text
                  then base + 180 else base);
          base = (if any_in [''grilled'', ''boiled'', ''steamed'', ''salad'', ''soup''] text
                  then base - 50 else base)
      in base)"


section \<open>Suggestions engine\<close>

definition tip_paratha :: string where
  "tip_paratha = ''Swap paratha with chapati/roti '' @ [CHR 0xF0, CHR 0x9F, CHR 0xAB, CHR 0x93]
     @ '' to cut oil and save ~80'' @ [CHR 0xE2, CHR 0x80, CHR 0x93] @ ''100 kcal per piece.''"

definition tip_biryani :: string where
  "tip_biryani = ''Try veg pulao '' @ [CHR 0xF0, CHR 0x9F, CHR 0x8D, CHR 0x9A]
     @ '' or smaller portion biryani; pair with salad to fill up.''"

definition tip_paneer :: string where
  "tip_paneer = ''Choose kadai paneer ''
     @ [CHR 0xF0, CHR 0x9F, CHR 0x8C, CHR 0xB6, CHR 0xEF, CHR 0xB8, CHR 0x8F]
     @ '' or palak paneer; ask for less butter/ghee.''"

definition tip_fries :: string where
  "tip_fries = ''Baked sweet potato wedges '' @ [CHR 0xF0, CHR 0x9F, CHR 0x8D, CHR 0xA0]
     @ '' or roasted chana.''"

definition tip_burger :: string where
  "tip_burger = ''Grilled chicken or paneer sandwich '' @ [CHR 0xF0, CHR 0x9F, CHR 0xA5, CHR 0xAA]
     @ '' with whole wheat bread, skip extra cheese.''"

definition tip_pizza :: string where
  "tip_pizza = ''Thin-crust veggie pizza '' @ [CHR 0xF0, CHR 0x9F, CHR 0x8D, CHR 0x95]
     @ '', go easy on cheese, add a side salad.''"

definition tip_samosa :: string where
  "tip_samosa = ''Air-fried samosa or chana chaat '' @ [CHR 0xF0, CHR 0x9F, CHR 0xA5, CHR 0x97]
     @ ''; limit to one.''"

definition tip_jalebi :: string where
  "tip_jalebi = ''Fresh fruit '' @ [CHR 0xF0, CHR 0x9F, CHR 0x8D, CHR 0x8E]
     @ '' or a small piece of dark chocolate.''"

definition tip_halwa :: string where
  "tip_halwa = ''Fruit yogurt '' @ [CHR 0xF0, CHR 0x9F, CHR 0x8D, CHR 0x93]
     @ '' or kheer with less sugar.''"

definition tip_grilled :: string where
  "tip_grilled = ''Choose grilled/roasted over fried ''
     @ [CHR 0xF0, CHR 0x9F, CHR 0x94, CHR 0xA5, CHR 0xE2, CHR 0x86, CHR 0x92, CHR 0xF0,
        CHR 0x9F, CHR 0x8D, CHR 0xBD, CHR 0xEF, CHR 0xB8, CHR 0x8F]
     @ '', and ask for less butter/ghee.''"

definition tip_fiber :: string where
  "tip_fiber = ''Add a fiber boost: salad, veggies, dal '' @ [CHR 0xF0, CHR 0x9F, CHR 0xA5, CHR 0x97]
     @ '' to feel full with fewer calories.''"

text \<open>The dictionary \<open>ALT_SUGGESTIONS\<close>, in the order of its literal (the iteration order).\<close>

definition ALT_SUGGESTIONS :: "(string \<times> string) list" where
  "ALT_SUGGESTIONS =
    [(''paratha'', tip_paratha),
     (''biryani'', tip_biryani),
     (''paneer butter masala'', tip_paneer),
     (''fries'', tip_fries),
     (''burger'', tip_burger),
     (''pizza'', tip_pizza),
     (''samosa'', tip_samosa),
     (''jalebi'', tip_jalebi),
     (''halwa'', tip_halwa)]"

text \<open>The inner loop \<open>for k, msg in ALT_SUGGESTIONS.items()\<close>, appending to \<open>tips\<close>.\<close>

fun scan_table :: "string \<Rightarrow> (string \<times> string) list \<Rightarrow> string list \<Rightarrow> string list" where
  "scan_table key [] tips = tips"
| "scan_table key ((k, msg) # rest) tips =
     scan_table key rest (if contains k key then tips @ [msg] else tips)"

text \<open>The outer loop \<open>for f in food_items\<close>.\<close>

fun scan_items :: "string list \<Rightarrow> string list \<Rightarrow> string list" where
  "scan_items [] tips = tips"
| "scan_items (f # fs) tips = scan_items fs (scan_table (lower f) ALT_SUGGESTIONS tips)"

text \<open>
  \<open>list(dict.fromkeys(tips))\<close>: the keys of an insertion-ordered dictionary filled from
  \<open>tips\<close>; a key already present keeps its place.
\<close>

fun fromkeys :: "'a list \<Rightarrow> 'a list \<Rightarrow> 'a list" where
  "fromkeys [] d = d"
| "fromkeys (t # ts) d = fromkeys ts (if t \<in> set d then d else d @ [t])"

definition generate_alternatives :: "string list \<Rightarrow> string list" where
  "generate_alternatives food_items =
     (let tips = scan_items food_items [];
          tips = tips @ [tip_grilled];
          tips = tips @ [tip_fiber]
      in fromkeys tips [])"

definition act_walk :: string where
  "act_walk = ''Take a brisk walk ''
     @ [CHR 0xF0, CHR 0x9F, CHR 0x9A, CHR 0xB6, CHR 0xE2, CHR 0x80, CHR 0x8D, CHR 0xE2,
        CHR 0x99, CHR 0x80, CHR 0xEF, CHR 0xB8, CHR 0x8F]
     @ '' 20'' @ [CHR 0xE2, CHR 0x80, CHR 0x93]
     @ ''30 minutes after meals to support digestion and energy.''"

definition act_bodyweight :: string where
  "act_bodyweight = ''Try 10'' @ [CHR 0xE2, CHR 0x80, CHR 0x93]
     @ ''15 minutes of bodyweight moves '' @ [CHR 0xF0, CHR 0x9F, CHR 0x92, CHR 0xAA]
     @ '' (squats, lunges, planks) to feel active.''"

definition act_split :: string where
  "act_split = ''On busy days, split short walks: 3'' @ [CHR 0xC3, CHR 0x97]
     @ ''10 minutes '' @ [CHR 0xF0, CHR 0x9F, CHR 0x95, CHR 0x92] @ ''.''"

definition act_longer_walk :: string where
  "act_longer_walk = ''If intake is higher than usual, consider a longer walk today ''
     @ [CHR 0xF0, CHR 0x9F, CHR 0x8C, CHR 0xA4, CHR 0xEF, CHR 0xB8, CHR 0x8F]
     @ '' or add light yoga '' @ [CHR 0xF0, CHR 0x9F, CHR 0xA7, CHR 0x98] @ ''.''"

definition activity_suggestions :: "int \<Rightarrow> string list" where
  "activity_suggestions total_kcal =
     (let suggestions = [];
          suggestions = suggestions @ [act_walk];
          suggestions = suggestions @ [act_bodyweight];
          suggestions = suggestions @ [act_split];
          suggestions = (if total_kcal > 2200 then suggestions @ [act_longer_walk] else suggestions)
      in suggestions)"

text \<open>
  The reading of the specification, to compare \<open>generate_alternatives\<close> with: the tips
  of the table whose keyword occurs in the lower-cased name, and the de-duplication that
  keeps the first occurrence of every element.
\<close>

definition spec_matched_tips :: "string \<Rightarrow> string list" where
  "spec_matched_tips name =
     map snd (filter (\<lambda>(k, msg). contains k (lower name)) ALT_SUGGESTIONS)"

definition spec_first_seen :: "'a list \<Rightarrow> 'a list" where
  "spec_first_seen xs = rev (remdups (rev xs))"

section \<open>Properties of the resolver\<close>





lemma first_digit_run_digits:
  assumes "first_digit_run text = Some g"
  shows "g \<noteq> [] \<and> list_all isdigit g"
proof -
  from assms obtain d rest where dr: "dropWhile (\<lambda>c. \<not> isdigit c) text = d # rest"
    and g: "g = takeWhile isdigit (d # rest)"
    by (auto simp: first_digit_run_def split: list.splits)
  from dr have "isdigit d"
    using hd_dropWhile [of "\<lambda>c. \<not> isdigit c" "text"] by simp
  with g have "g \<noteq> []" by simp
  moreover from g have "list_all isdigit g"
    by (simp only: list_all_iff) (auto dest: set_takeWhileD)
  ultimately show ?thesis by simp
qed

lemma first_digit_run_None_iff:
  "first_digit_run text = None \<longleftrightarrow> (\<forall>c \<in> set text. \<not> isdigit c)"
proof -
  define r where "r = dropWhile (\<lambda>c. \<not> isdigit c) text"
  have "first_digit_run text = None \<longleftrightarrow> r = []"
    unfolding first_digit_run_def r_def [symmetric] by (cases r) simp_all
  also have "r = [] \<longleftrightarrow> (\<forall>c \<in> set text. \<not> isdigit c)"
    unfolding r_def by (simp add: dropWhile_eq_Nil_conv)
  finally show ?thesis .
qed

lemma py_int_digits:
  "g \<noteq> [] \<Longrightarrow> list_all isdigit g \<Longrightarrow>
     py_int g = Inr (foldl (\<lambda>acc c. 10 * acc + (of_char c - 48)) 0 g)"
  by (simp add: py_int_def)



lemma extract_quantity_cases:
  "extract_quantity text =
     (case first_digit_run text of
        Some g \<Rightarrow> Inr (max 1 (foldl (\<lambda>acc c. 10 * acc + (of_char c - 48)) 0 g))
      | None \<Rightarrow> (case first_word_num WORD_NUM text of Some v \<Rightarrow> Inr v | None \<Rightarrow> Inr 1))"
proof (cases "first_digit_run text")
  case None
  then show ?thesis by (simp add: extract_quantity_def split: option.splits)
next
  case (Some g)
  with first_digit_run_digits [OF Some] show ?thesis
    by (simp add: extract_quantity_def py_int_digits)
qed















lemma fallback_base_case_insensitive:
  "lower p = lower p' \<Longrightarrow> fallback_base p = fallback_base p'"
  by (simp add: fallback_base_def)



lemma quantity_examples:
  "extract_quantity ''Two roti'' = Inr 1"
  "extract_quantity ''two roti'' = Inr 2"
  "lower ''Two roti'' = ''two roti''"
  "extract_quantity ''two 3 roti'' = Inr 3"
  "extract_quantity ''a two roti'' = Inr 2"
  "extract_quantity ''0 roti'' = Inr 1"
  "extract_quantity ''roti'' = Inr 1"
  by code_simp+

lemma first_word_num_Some_iff:
  "first_word_num tbl t = Some v \<longleftrightarrow>
     (\<exists>i < length tbl. search_whole_word (fst (tbl ! i)) t
        \<and> (\<forall>j < i. \<not> search_whole_word (fst (tbl ! j)) t) \<and> v = snd (tbl ! i))"
proof (induction tbl)
  case Nil
  then show ?case by simp
next
  case (Cons wv tbl)
  obtain w u where wv: "wv = (w, u)" by (cases wv)
  let ?P = "\<lambda>tb i. search_whole_word (fst (tb ! i)) t
              \<and> (\<forall>j < i. \<not> search_whole_word (fst (tb ! j)) t) \<and> v = snd (tb ! i)"
  show ?case
  proof (cases "search_whole_word w t")
    case True
    have "(\<exists>i < length (wv # tbl). ?P (wv # tbl) i) \<longleftrightarrow> v = u"
    proof
      assume "\<exists>i < length (wv # tbl). ?P (wv # tbl) i"
      then obtain i where i: "?P (wv # tbl) i" by blast
      have "i = 0"
      proof (rule ccontr)
        assume "i \<noteq> 0"
        with i have "\<not> search_whole_word (fst ((wv # tbl) ! 0)) t" by blast
        with True wv show False by simp
      qed
      with i wv show "v = u" by simp
    next
      assume "v = u"
      with True wv have "?P (wv # tbl) 0" by simp
      then show "\<exists>i < length (wv # tbl). ?P (wv # tbl) i" by (intro exI [of _ 0]) simp
    qed
    with True wv show ?thesis by auto
  next
    case False
    have "(\<exists>i < length (wv # tbl). ?P (wv # tbl) i) \<longleftrightarrow> (\<exists>i < length tbl. ?P tbl i)"
    proof
      assume "\<exists>i < length (wv # tbl). ?P (wv # tbl) i"
      then obtain i where il: "i < length (wv # tbl)" and i: "?P (wv # tbl) i" by blast
      with False wv obtain i' where i': "i = Suc i'" by (cases i) auto
      have "\<forall>j < i'. \<not> search_whole_word (fst (tbl ! j)) t"
      proof (intro allI impI)
        fix j assume "j < i'"
        then have "Suc j < i" using i' by simp
        with i have "\<not> search_whole_word (fst ((wv # tbl) ! Suc j)) t" by blast
        then show "\<not> search_whole_word (fst (tbl ! j)) t" by simp
      qed
      with i il i' have "i' < length tbl \<and> ?P tbl i'" by simp
      then show "\<exists>i < length tbl. ?P tbl i" by blast
    next
      assume "\<exists>i < length tbl. ?P tbl i"
      then obtain i where il: "i < length tbl" and i: "?P tbl i" by blast
      have "\<forall>j < Suc i. \<not> search_whole_word (fst ((wv # tbl) ! j)) t"
      proof (intro allI impI)
        fix j assume "j < Suc i"
        then show "\<not> search_whole_word (fst ((wv # tbl) ! j)) t"
          using False wv i by (cases j) auto
      qed
      with i il have "Suc i < length (wv # tbl) \<and> ?P (wv # tbl) (Suc i)" by simp
      then show "\<exists>i < length (wv # tbl). ?P (wv # tbl) i" by blast
    qed
    with False wv Cons.IH show ?thesis by simp
  qed
qed

text \<open>
  What holds of the precedence of \<open>extract_quantity\<close>: the first run of digits, read as a
  number and raised to at least 1, decides whenever the phrase has a digit; otherwise the
  first entry of \<open>WORD_NUM\<close>, in table order, that occurs as a whole word decides;
  otherwise the quantity is 1.
\<close>

lemma extract_quantity_precedence:
  "(first_digit_run t = Some g \<longrightarrow>
      extract_quantity t = Inr (max 1 (foldl (\<lambda>acc c. 10 * acc + (of_char c - 48)) 0 g)))
   \<and> (first_digit_run t = None \<longrightarrow>
        (\<forall>i < length WORD_NUM. search_whole_word (fst (WORD_NUM ! i)) t
            \<and> (\<forall>j < i. \<not> search_whole_word (fst (WORD_NUM ! j)) t)
            \<longrightarrow> extract_quantity t = Inr (snd (WORD_NUM ! i)))
        \<and> ((\<forall>i < length WORD_NUM. \<not> search_whole_word (fst (WORD_NUM ! i)) t)
            \<longrightarrow> extract_quantity t = Inr 1))"
proof (intro conjI impI allI)
  assume "first_digit_run t = Some g"
  then show "extract_quantity t = Inr (max 1 (foldl (\<lambda>acc c. 10 * acc + (of_char c - 48)) 0 g))"
    by (simp add: extract_quantity_cases)
next
  fix i
  assume n: "first_digit_run t = None" and "i < length WORD_NUM"
    and "search_whole_word (fst (WORD_NUM ! i)) t
          \<and> (\<forall>j < i. \<not> search_whole_word (fst (WORD_NUM ! j)) t)"
  then have "first_word_num WORD_NUM t = Some (snd (WORD_NUM ! i))"
    unfolding first_word_num_Some_iff by blast
  with n show "extract_quantity t = Inr (snd (WORD_NUM ! i))"
    by (simp add: extract_quantity_cases)
next
  assume n: "first_digit_run t = None"
    and a: "\<forall>i < length WORD_NUM. \<not> search_whole_word (fst (WORD_NUM ! i)) t"
  have "first_word_num WORD_NUM t = None"
  proof (cases "first_word_num WORD_NUM t")
    case None
    then show ?thesis .
  next
    case (Some v)
    with a show ?thesis unfolding first_word_num_Some_iff by blast
  qed
  with n show "extract_quantity t = Inr 1" by (simp add: extract_quantity_cases)
qed

text \<open>
  C3: the claim has the spelled-out number words searched case-insensitively. The code
  searches the raw phrase with a case-sensitive pattern: "Two roti" gets the quantity 1,
  although its lower-cased form "two roti" gets 2. The digits do win over a number word
  ("two 3 roti" gets 3), and table order, not phrase order, decides among the words
  ("a two roti" gets 2).
\<close>

theorem extract_quantity_capitalised_word:
  "extract_quantity ''Two roti'' = Inr 1
   \<and> lower ''Two roti'' = ''two roti''
   \<and> extract_quantity ''two roti'' = Inr 2
   \<and> extract_quantity ''two 3 roti'' = Inr 3
   \<and> extract_quantity ''a two roti'' = Inr 2"
  using quantity_examples by simp










section \<open>Properties of the suggestions engine\<close>

lemma act_longer_walk_fresh:
  "act_longer_walk \<noteq> act_walk" "act_longer_walk \<noteq> act_bodyweight" "act_longer_walk \<noteq> act_split"
  by (simp_all add: act_longer_walk_def act_walk_def act_bodyweight_def act_split_def)

text \<open>
  C8: \<open>activity_suggestions\<close> returns the same three activity texts for every total, followed
  by the "longer walk" text exactly when the total exceeds 2200; so the total 2500 gets the
  extra text and the total 1800 does not.
\<close>

theorem activity_suggestions_fixed_plus_extra:
  "activity_suggestions total_kcal =
     [act_walk, act_bodyweight, act_split] @ (if 2200 < total_kcal then [act_longer_walk] else [])
   \<and> (act_longer_walk \<in> set (activity_suggestions total_kcal)) = (2200 < total_kcal)
   \<and> act_longer_walk \<in> set (activity_suggestions 2500)
   \<and> act_longer_walk \<notin> set (activity_suggestions 1800)"
  using act_longer_walk_fresh by (simp add: activity_suggestions_def)

theorem activity_suggestions_witness:
  "activity_suggestions 2201 = [act_walk, act_bodyweight, act_split, act_longer_walk]
   \<and> activity_suggestions 2200 = [act_walk, act_bodyweight, act_split]"
  using activity_suggestions_fixed_plus_extra [of 2201]
        activity_suggestions_fixed_plus_extra [of 2200]
  by simp

lemma scan_table_append:
  "scan_table key tbl tips = tips @ map snd (filter (\<lambda>(k, msg). contains k key) tbl)"
  by (induction tbl arbitrary: tips) auto

lemma scan_items_append:
  "scan_items fs tips = tips @ concat (map spec_matched_tips fs)"
  by (induction fs arbitrary: tips) (simp_all add: scan_table_append spec_matched_tips_def)

lemma remdups_drop_repeated:
  "t \<in> set ys \<Longrightarrow> remdups (xs @ t # ys) = remdups (xs @ ys)"
  by (induction xs) auto

lemma fromkeys_first_seen:
  "distinct d \<Longrightarrow> fromkeys ts d = spec_first_seen (d @ ts)"
proof (induction ts arbitrary: d)
  case Nil
  then show ?case by (simp add: spec_first_seen_def distinct_remdups_id)
next
  case (Cons t ts)
  show ?case
  proof (cases "t \<in> set d")
    case True
    then have "remdups (rev ts @ t # rev d) = remdups (rev ts @ rev d)"
      by (intro remdups_drop_repeated) simp
    with True Cons show ?thesis by (simp add: spec_first_seen_def)
  next
    case False
    with Cons.prems have "distinct (d @ [t])" by simp
    from Cons.IH [OF this] False show ?thesis by simp
  qed
qed

lemma generate_alternatives_first_seen:
  "generate_alternatives fs =
     spec_first_seen (concat (map spec_matched_tips fs) @ [tip_grilled, tip_fiber])"
  by (simp add: generate_alternatives_def scan_items_append fromkeys_first_seen)

lemma generic_tips_differ:
  "tip_grilled \<noteq> tip_fiber" "tip_paratha \<noteq> tip_grilled" "tip_paratha \<noteq> tip_fiber"
  by (simp_all add: tip_grilled_def tip_fiber_def tip_paratha_def)

lemma generate_alternatives_paratha:
  "generate_alternatives [''paratha''] = [tip_paratha, tip_grilled, tip_fiber]"
  using generic_tips_differ
  by (simp add: generate_alternatives_def ALT_SUGGESTIONS_def lower_def lower_char_def)

lemma generate_alternatives_paratha_twice:
  "generate_alternatives [''paratha'', ''Aloo Paratha''] = [tip_paratha, tip_grilled, tip_fiber]"
  using generic_tips_differ
  by (simp add: generate_alternatives_def ALT_SUGGESTIONS_def lower_def lower_char_def)

text \<open>
  C7: \<open>generate_alternatives\<close> collects, name by name and in table order, the tips whose
  keyword occurs in the lower-cased name, appends the two generic tips and keeps the first
  occurrence of every tip, so the result has no duplicates. For the single name "paratha"
  the result is the paratha tip and the two generic tips, and it stays so when a second
  name triggers the paratha tip again.
\<close>

theorem generate_alternatives_refines_spec:
  "generate_alternatives food_items =
     spec_first_seen (concat (map spec_matched_tips food_items) @ [tip_grilled, tip_fiber])
   \<and> distinct (generate_alternatives food_items)
   \<and> set (generate_alternatives food_items) =
       (\<Union>name \<in> set food_items. set (spec_matched_tips name)) \<union> {tip_grilled, tip_fiber}
   \<and> generate_alternatives [''paratha''] = [tip_paratha, tip_grilled, tip_fiber]
   \<and> generate_alternatives [''paratha'', ''Aloo Paratha''] = [tip_paratha, tip_grilled, tip_fiber]"
  using generate_alternatives_paratha generate_alternatives_paratha_twice
  by (auto simp add: generate_alternatives_first_seen spec_first_seen_def)

theorem generate_alternatives_refines_spec_witness:
  "distinct (generate_alternatives [''paratha''])
   \<and> generate_alternatives [''paratha''] = [tip_paratha, tip_grilled, tip_fiber]
   \<and> spec_matched_tips ''paratha'' = [tip_paratha]"
proof -
  have "spec_matched_tips ''paratha'' = [tip_paratha]"
    by (simp add: spec_matched_tips_def ALT_SUGGESTIONS_def lower_def lower_char_def)
  moreover from generate_alternatives_refines_spec [of "[''paratha'']"]
  have "distinct (generate_alternatives [''paratha''])"
    and "generate_alternatives [''paratha''] = [tip_paratha, tip_grilled, tip_fiber]"
    by blast+
  ultimately show ?thesis by blast
qed

text \<open>
  C10: for every list of names, the empty one included, the result of
  \<open>generate_alternatives\<close> contains both generic tips; it is never empty and has at
  least two elements.
\<close>

theorem generate_alternatives_has_generic_tips:
  "tip_grilled \<in> set (generate_alternatives food_items)
   \<and> tip_fiber \<in> set (generate_alternatives food_items)
   \<and> generate_alternatives food_items \<noteq> []
   \<and> 2 \<le> length (generate_alternatives food_items)
   \<and> generate_alternatives [] = [tip_grilled, tip_fiber]"
proof -
  let ?r = "generate_alternatives food_items"
  have d: "distinct ?r"
    by (simp add: generate_alternatives_first_seen spec_first_seen_def)
  have sub: "{tip_grilled, tip_fiber} \<subseteq> set ?r"
    by (simp add: generate_alternatives_first_seen spec_first_seen_def)
  then have "card {tip_grilled, tip_fiber} \<le> card (set ?r)"
    by (intro card_mono) simp_all
  with d generic_tips_differ have len: "2 \<le> length ?r"
    by (simp add: distinct_card)
  then have ne: "?r \<noteq> []" by auto
  have "generate_alternatives [] = [tip_grilled, tip_fiber]"
    using generic_tips_differ by (simp add: generate_alternatives_def)
  with sub len ne show ?thesis by simp
qed

theorem generate_alternatives_has_generic_tips_witness:
  "length (generate_alternatives []) = 2 \<and> length (generate_alternatives [''paratha'']) = 3"
  using generate_alternatives_has_generic_tips [of "[]"] generate_alternatives_paratha
  by simp

end
